theory Spec2Isabelle
  imports Main
begin

section \<open>The deCONZ config flow (homeassistant/components/deconz/config\_flow.py)\<close>

text \<open>
  The flow handler is a Python object whose attributes are written step by step; the
  model threads it as a record. Every step function takes the handler and the outside
  world and returns the step's outcome together with the handler and the world as the
  step left them. An exception leaving a step is the left injection of the outcome.
  Logging and the write-only \<^verbatim>\<open>context\<close> entries (title placeholders, configuration
  URL) decide nothing and are left out.
\<close>

subsection \<open>Exceptions, sources, records\<close>

datatype exn =
    LinkButtonNotPressed
  | ResponseError
  | RequestError
  | TimeoutError
  | KeyError
  | AttributeError
  | ValueError
  | AbortFlow string

text \<open>The source of a flow and of the config entry a flow created.\<close>

datatype source = SOURCE_USER | SOURCE_REAUTH | SOURCE_SSDP | SOURCE_HASSIO

text \<open>The data dictionary of a config entry: the keys host, port and api\_key.\<close>

record entry_data =
  conf_host :: string
  conf_port :: int
  conf_api_key :: string

record config_entry =
  unique_id :: "string option"
  source :: source
  title :: string
  data :: entry_data

text \<open>A bridge as the discovery call returns it (pydeconz \<^verbatim>\<open>DiscoveredBridge\<close>).\<close>

record bridge =
  b_id :: string
  b_host :: string
  b_port :: int

text \<open>
  The SSDP payload: the UPnP serial and the location URL, of which the step reads
  hostname and port through \<^verbatim>\<open>urlparse\<close>.
\<close>

record ssdp_info =
  upnp_serial :: string
  location_hostname :: string
  location_port :: int

text \<open>The configuration dictionary of a Hass.io discovery.\<close>

record hassio_info =
  hassio_serial :: string
  hassio_host :: string
  hassio_port :: int
  hassio_api_key :: string
  hassio_addon :: string

text \<open>A gateway object of the running integration; only its master flag is read here.\<close>

record gateway =
  gateway_bridgeid :: string
  master :: bool

text \<open>The calls a flow makes to the network, in the order it makes them.\<close>

datatype request =
    Discovery
  | GetApiKey string int
  | GetBridgeId string int string

text \<open>
  The world outside the handler: the stored config entries of the domain, the
  \<^verbatim>\<open>hass.data\<close> dictionary (here: domain name to the registry of gateways, in
  insertion order), and the log of network calls made so far.
\<close>

record hass =
  config_entries :: "config_entry list"
  hass_data :: "string \<rightharpoonup> (string \<times> gateway) list"
  requests :: "request list"

text \<open>
  The handler's attributes. \<^verbatim>\<open>bridge_id\<close> is set by the constructor; the others are
  only annotated in the class body, so they do not exist until a step assigns them
  (\<open>None\<close>), and reading one before that raises AttributeError.
\<close>

record flow =
  flow_source :: source
  flow_unique_id :: "string option"
  bridge_id :: string
  bridges :: "bridge list option"
  host :: "string option"
  port :: "int option"
  api_key :: "string option"
  hassio_discovery :: "hassio_info option"

text \<open>
  The library functions the flow calls (pydeconz), as parameters: the identifier
  normaliser, and what each time-boxed network call answers. A call that exceeds its
  ten seconds answers \<open>Inl TimeoutError\<close>.
\<close>

record env =
  normalize_bridge_id :: "string \<Rightarrow> string"
  deconz_discovery :: "exn + bridge list"
  get_api_key :: "string \<Rightarrow> int \<Rightarrow> exn + string"
  deconz_get_bridge_id :: "string \<Rightarrow> int \<Rightarrow> string \<Rightarrow> exn + string"

text \<open>What a step hands back to the flow manager.\<close>

datatype flow_result =
    ShowForm string "string list" "(string \<times> string) list" "(string \<times> string) list"
  | CreateEntry string entry_data
  | Abort string

type_synonym step_outcome = "(exn + flow_result) \<times> flow \<times> hass"

definition DOMAIN :: string where
  "DOMAIN = ''deconz''"

definition CONF_MANUAL_INPUT :: string where
  "CONF_MANUAL_INPUT = ''Manually define gateway''"

definition called :: "request \<Rightarrow> hass \<Rightarrow> hass" where
  "called r h = h\<lparr>requests := requests h @ [r]\<rparr>"

subsection \<open>The master gateway\<close>

text \<open>The loop of \<^verbatim>\<open>get_master_gateway\<close> over the registry's values.\<close>

fun first_master :: "(string \<times> gateway) list \<Rightarrow> exn + gateway" where
  "first_master [] = Inl ValueError"
| "first_master ((k, g) # rest) = (if master g then Inr g else first_master rest)"

definition get_master_gateway :: "hass \<Rightarrow> exn + gateway" where
  "get_master_gateway h =
     (case hass_data h DOMAIN of
        None \<Rightarrow> Inl KeyError
      | Some registry \<Rightarrow> first_master registry)"

subsection \<open>The record store and the flow base class\<close>

text \<open>
  Modelled from the spec: \<^verbatim>\<open>ConfigFlow.async_set_unique_id\<close> of
  homeassistant/config\_entries.py is not among the sources. The persistent record
  store supports lookup by identity: the call records the identity on the flow and
  answers the stored record that has it, if there is one.
\<close>

definition async_set_unique_id :: "string \<Rightarrow> flow \<Rightarrow> hass \<Rightarrow> config_entry option \<times> flow" where
  "async_set_unique_id uid f h =
     (find (\<lambda>e. unique_id e = Some uid) (config_entries h), f\<lparr>flow_unique_id := Some uid\<rparr>)"

text \<open>
  The \<^verbatim>\<open>updates\<close> dictionary of a call: the keys it has are written over the
  entry's data, the others stay.
\<close>

record updates =
  upd_host :: "string option"
  upd_port :: "int option"
  upd_api_key :: "string option"

definition apply_updates :: "updates \<Rightarrow> config_entry \<Rightarrow> config_entry" where
  "apply_updates u e =
     e\<lparr>data := \<lparr>conf_host = (case upd_host u of None \<Rightarrow> conf_host (data e) | Some v \<Rightarrow> v),
                conf_port = (case upd_port u of None \<Rightarrow> conf_port (data e) | Some v \<Rightarrow> v),
                conf_api_key =
                  (case upd_api_key u of None \<Rightarrow> conf_api_key (data e) | Some v \<Rightarrow> v)\<rparr>\<rparr>"

text \<open>
  The walk over the stored entries: the first entry with the identity is updated in
  place and the walk stops there (\<open>Some\<close> of the new store); \<open>None\<close> when no entry
  has the identity.
\<close>

fun update_configured :: "string \<Rightarrow> updates \<Rightarrow> config_entry list \<Rightarrow> config_entry list option" where
  "update_configured uid u [] = None"
| "update_configured uid u (e # es) =
     (if unique_id e = Some uid then Some (apply_updates u e # es)
      else map_option ((#) e) (update_configured uid u es))"

text \<open>
  Modelled from the spec: \<^verbatim>\<open>ConfigFlow._abort_if_unique_id_configured\<close> of
  homeassistant/config\_entries.py is not among the sources. If a record exists for the
  flow's identity, its host, port and credential are updated in place from the given
  values and the duplicate is signalled (the flow aborts as already configured);
  without a record, or without an identity on the flow, nothing happens.
\<close>

definition abort_if_unique_id_configured :: "updates \<Rightarrow> flow \<Rightarrow> hass \<Rightarrow> (exn + unit) \<times> hass" where
  "abort_if_unique_id_configured u f h =
     (case flow_unique_id f of
        None \<Rightarrow> (Inr (), h)
      | Some uid \<Rightarrow>
          (case update_configured uid u (config_entries h) of
             None \<Rightarrow> (Inr (), h)
           | Some es \<Rightarrow> (Inl (AbortFlow ''already_configured''), h\<lparr>config_entries := es\<rparr>)))"

text \<open>
  Modelled from the spec: the flow manager of homeassistant/config\_entries.py and
  homeassistant/data\_entry\_flow.py, which calls the steps, is not among the sources.
  A duplicate signalled by a step ends the flow as an abort with that reason. A step
  that ends in a created entry has the record written to the store, under the flow's
  identity and source; the store is keyed by identity, so a record already stored under
  that identity is replaced. Forms and aborts write nothing.
\<close>

definition async_add :: "config_entry \<Rightarrow> config_entry list \<Rightarrow> config_entry list" where
  "async_add e es =
     (case unique_id e of
        None \<Rightarrow> es @ [e]
      | Some uid \<Rightarrow> filter (\<lambda>x. unique_id x \<noteq> Some uid) es @ [e])"

definition async_handle_step :: "step_outcome \<Rightarrow> step_outcome" where
  "async_handle_step out =
     (case out of
        (Inl (AbortFlow reason), f, h) \<Rightarrow> (Inr (Abort reason), f, h)
      | (Inl e, f, h) \<Rightarrow> (Inl e, f, h)
      | (Inr (CreateEntry t d), f, h) \<Rightarrow>
          (Inr (CreateEntry t d), f,
           h\<lparr>config_entries :=
               async_add \<lparr>unique_id = flow_unique_id f, source = flow_source f,
                          title = t, data = d\<rparr> (config_entries h)\<rparr>)
      | (Inr r, f, h) \<Rightarrow> (Inr r, f, h))"

text \<open>The store invariant of the spec: at most one record for each identity.\<close>

definition one_record_per_identity :: "config_entry list \<Rightarrow> bool" where
  "one_record_per_identity es =
     distinct (map unique_id (filter (\<lambda>e. unique_id e \<noteq> None) es))"

subsection \<open>The flow handler\<close>

text \<open>\<^verbatim>\<open>DeconzFlowHandler.__init__\<close>: the bridge id starts as the empty string.\<close>

definition DeconzFlowHandler :: "source \<Rightarrow> flow" where
  "DeconzFlowHandler src =
     \<lparr>flow_source = src, flow_unique_id = None, bridge_id = [], bridges = None,
      host = None, port = None, api_key = None, hassio_discovery = None\<rparr>"

text \<open>
  \<^verbatim>\<open>self.async_create_entry(title=self.bridge_id, data={...})\<close>, the last statement of
  \<^verbatim>\<open>_create_entry\<close>.
\<close>

definition async_create_entry :: "flow \<Rightarrow> hass \<Rightarrow> step_outcome" where
  "async_create_entry f h =
     (case (host f, port f, api_key f) of
        (Some hst, Some prt, Some key) \<Rightarrow>
          (Inr (CreateEntry (bridge_id f)
                  \<lparr>conf_host = hst, conf_port = prt, conf_api_key = key\<rparr>), f, h)
      | _ \<Rightarrow> (Inl AttributeError, f, h))"

text \<open>
  \<^verbatim>\<open>_create_entry\<close>. Only with an empty bridge id is the identity asked of the
  bridge, registered on the flow and looked up in the store; the try block catches the
  timeout alone, every other exception leaves the step.
\<close>

definition create_entry :: "env \<Rightarrow> flow \<Rightarrow> hass \<Rightarrow> step_outcome" where
  "create_entry env f h =
     (if bridge_id f = [] then
        (case (host f, port f, api_key f) of
           (Some hst, Some prt, Some key) \<Rightarrow>
             (let h1 = called (GetBridgeId hst prt key) h in
              case deconz_get_bridge_id env hst prt key of
                Inl TimeoutError \<Rightarrow> (Inr (Abort ''no_bridges''), f, h1)
              | Inl e \<Rightarrow> (Inl e, f, h1)
              | Inr bid \<Rightarrow>
                  (let f1 = f\<lparr>bridge_id := bid\<rparr>;
                       f2 = snd (async_set_unique_id (bridge_id f1) f1 h1)
                   in case abort_if_unique_id_configured
                             \<lparr>upd_host = Some hst, upd_port = Some prt,
                              upd_api_key = Some key\<rparr> f2 h1 of
                        (Inl e, h2) \<Rightarrow> (Inl e, f2, h2)
                      | (Inr u, h2) \<Rightarrow> async_create_entry f2 h2))
         | _ \<Rightarrow> (Inl AttributeError, f, h))
      else async_create_entry f h)"

text \<open>
  \<^verbatim>\<open>async_step_link\<close>. The input is only tested for presence. The two except
  clauses set the base error and fall through to the form.
\<close>

definition async_step_link :: "env \<Rightarrow> flow \<Rightarrow> hass \<Rightarrow> unit option \<Rightarrow> step_outcome" where
  "async_step_link env f h user_input =
     (case (host f, port f) of
        (Some hst, Some prt) \<Rightarrow>
          (case user_input of
             None \<Rightarrow> (Inr (ShowForm ''link'' [] [] []), f, h)
           | Some u \<Rightarrow>
               (let h1 = called (GetApiKey hst prt) h in
                case get_api_key env hst prt of
                  Inl LinkButtonNotPressed \<Rightarrow>
                    (Inr (ShowForm ''link'' [] [(''base'', ''linking_not_possible'')] []), f, h1)
                | Inl ResponseError \<Rightarrow>
                    (Inr (ShowForm ''link'' [] [(''base'', ''no_key'')] []), f, h1)
                | Inl RequestError \<Rightarrow>
                    (Inr (ShowForm ''link'' [] [(''base'', ''no_key'')] []), f, h1)
                | Inl TimeoutError \<Rightarrow>
                    (Inr (ShowForm ''link'' [] [(''base'', ''no_key'')] []), f, h1)
                | Inl e \<Rightarrow> (Inl e, f, h1)
                | Inr key \<Rightarrow> create_entry env (f\<lparr>api_key := Some key\<rparr>) h1))
      | _ \<Rightarrow> (Inl AttributeError, f, h))"

text \<open>\<^verbatim>\<open>async_step_manual_input\<close>: host and port are required fields of its form.\<close>

definition async_step_manual_input ::
  "env \<Rightarrow> flow \<Rightarrow> hass \<Rightarrow> (string \<times> int) option \<Rightarrow> step_outcome" where
  "async_step_manual_input env f h user_input =
     (case user_input of
        Some (hst, prt) \<Rightarrow> async_step_link env (f\<lparr>host := Some hst, port := Some prt\<rparr>) h None
      | None \<Rightarrow> (Inr (ShowForm ''manual_input'' [] [] []), f, h))"

text \<open>
  The second half of \<^verbatim>\<open>async_step_user\<close>: the discovery call, with a timeout and a
  response error caught, and the choice between the form of hosts and manual input.
\<close>

definition user_discovery :: "env \<Rightarrow> flow \<Rightarrow> hass \<Rightarrow> step_outcome" where
  "user_discovery env f h =
     (let h1 = called Discovery h;
          continue = (\<lambda>bs.
            let f1 = f\<lparr>bridges := Some bs\<rparr>
            in if bs \<noteq> [] then
                 (Inr (ShowForm ''user'' (map b_host bs @ [CONF_MANUAL_INPUT]) [] []), f1, h1)
               else async_step_manual_input env f1 h1 None)
      in case deconz_discovery env of
           Inl TimeoutError \<Rightarrow> continue []
         | Inl ResponseError \<Rightarrow> continue []
         | Inl e \<Rightarrow> (Inl e, f, h1)
         | Inr bs \<Rightarrow> continue bs)"

text \<open>
  \<^verbatim>\<open>async_step_user\<close>. The host field of its form is optional: the input is absent
  (\<open>None\<close>), a dictionary without the key (\<open>Some None\<close>) or a chosen host. A chosen
  bridge gives the handler its id, host and port as the discovery returned them.
\<close>

definition async_step_user :: "env \<Rightarrow> flow \<Rightarrow> hass \<Rightarrow> string option option \<Rightarrow> step_outcome" where
  "async_step_user env f h user_input =
     (case user_input of
        None \<Rightarrow> user_discovery env f h
      | Some None \<Rightarrow> (Inl KeyError, f, h)
      | Some (Some chosen) \<Rightarrow>
          if chosen = CONF_MANUAL_INPUT then async_step_manual_input env f h None
          else (case bridges f of
                  None \<Rightarrow> (Inl AttributeError, f, h)
                | Some bs \<Rightarrow>
                    (case find (\<lambda>b. b_host b = chosen) bs of
                       Some b \<Rightarrow>
                         async_step_link env
                           (f\<lparr>bridge_id := b_id b, host := Some (b_host b),
                              port := Some (b_port b)\<rparr>) h None
                     | None \<Rightarrow> user_discovery env f h)))"

text \<open>\<^verbatim>\<open>async_step_reauth\<close>: host and port come from the entry's data.\<close>

definition async_step_reauth :: "env \<Rightarrow> flow \<Rightarrow> hass \<Rightarrow> entry_data \<Rightarrow> step_outcome" where
  "async_step_reauth env f h entry_data =
     async_step_link env
       (f\<lparr>host := Some (conf_host entry_data), port := Some (conf_port entry_data)\<rparr>) h None"

text \<open>\<^verbatim>\<open>async_step_ssdp\<close>.\<close>

definition async_step_ssdp :: "env \<Rightarrow> flow \<Rightarrow> hass \<Rightarrow> ssdp_info \<Rightarrow> step_outcome" where
  "async_step_ssdp env f h discovery_info =
     (let f1 = f\<lparr>bridge_id := normalize_bridge_id env (upnp_serial discovery_info)\<rparr>;
          (entry, f2) = async_set_unique_id (bridge_id f1) f1 h
      in if (case entry of None \<Rightarrow> False | Some e \<Rightarrow> source e = SOURCE_HASSIO) then
           (Inr (Abort ''already_configured''), f2, h)
         else
           (let f3 = f2\<lparr>host := Some (location_hostname discovery_info),
                        port := Some (location_port discovery_info)\<rparr>
            in case abort_if_unique_id_configured
                      \<lparr>upd_host = host f3, upd_port = port f3, upd_api_key = None\<rparr> f3 h of
                 (Inl e, h1) \<Rightarrow> (Inl e, f3, h1)
               | (Inr u, h1) \<Rightarrow> async_step_link env f3 h1 None))"

text \<open>\<^verbatim>\<open>async_step_hassio_confirm\<close>.\<close>

definition async_step_hassio_confirm :: "env \<Rightarrow> flow \<Rightarrow> hass \<Rightarrow> unit option \<Rightarrow> step_outcome" where
  "async_step_hassio_confirm env f h user_input =
     (case user_input of
        Some u \<Rightarrow> create_entry env f h
      | None \<Rightarrow>
          (case hassio_discovery f of
             None \<Rightarrow> (Inl AttributeError, f, h)
           | Some cfg \<Rightarrow>
               (Inr (ShowForm ''hassio_confirm'' [] [] [(''addon'', hassio_addon cfg)]), f, h)))"

text \<open>\<^verbatim>\<open>async_step_hassio\<close>.\<close>

definition async_step_hassio :: "env \<Rightarrow> flow \<Rightarrow> hass \<Rightarrow> hassio_info \<Rightarrow> step_outcome" where
  "async_step_hassio env f h discovery_info =
     (let f1 = f\<lparr>bridge_id := normalize_bridge_id env (hassio_serial discovery_info)\<rparr>;
          f2 = snd (async_set_unique_id (bridge_id f1) f1 h);
          f3 = f2\<lparr>host := Some (hassio_host discovery_info),
                  port := Some (hassio_port discovery_info),
                  api_key := Some (hassio_api_key discovery_info)\<rparr>
      in case abort_if_unique_id_configured
                \<lparr>upd_host = host f3, upd_port = port f3, upd_api_key = api_key f3\<rparr> f3 h of
           (Inl e, h1) \<Rightarrow> (Inl e, f3, h1)
         | (Inr u, h1) \<Rightarrow>
             async_step_hassio_confirm env (f3\<lparr>hassio_discovery := Some discovery_info\<rparr>) h1 None)"

subsection \<open>Reading a step's outcome\<close>

definition result_of :: "step_outcome \<Rightarrow> exn + flow_result" where
  "result_of out = fst out"

definition flow_of :: "step_outcome \<Rightarrow> flow" where
  "flow_of out = fst (snd out)"

definition hass_of :: "step_outcome \<Rightarrow> hass" where
  "hass_of out = snd (snd out)"

subsection \<open>A concrete environment for running the model\<close>

text \<open>
  A normaliser for the runs below: it drops the colons of an identifier. Which
  normaliser the library has does not matter to any statement.
\<close>

definition drop_colons :: "string \<Rightarrow> string" where
  "drop_colons s = filter (\<lambda>c. c \<noteq> CHR '':'') s"

text \<open>
  One bridge on the network, at 10.0.0.9:8080; its link button is pressed, and it
  reports its identity.
\<close>

definition example_env :: env where
  "example_env =
     \<lparr>normalize_bridge_id = drop_colons,
      deconz_discovery =
        Inr [\<lparr>b_id = ''00212EFFFF011111'', b_host = ''10.0.0.9'', b_port = 8080\<rparr>],
      get_api_key = (\<lambda>hst prt. Inr ''NEWKEY''),
      deconz_get_bridge_id = (\<lambda>hst prt key. Inr ''00212EFFFF011111'')\<rparr>"

text \<open>The record of an earlier pairing of that bridge, when it was at 1.2.3.4:80.\<close>

definition paired_entry :: "source \<Rightarrow> config_entry" where
  "paired_entry src =
     \<lparr>unique_id = Some ''00212EFFFF011111'', source = src, title = ''00212EFFFF011111'',
      data = \<lparr>conf_host = ''1.2.3.4'', conf_port = 80, conf_api_key = ''OLDKEY''\<rparr>\<rparr>"

definition example_hass :: "config_entry list \<Rightarrow> hass" where
  "example_hass es = \<lparr>config_entries = es, hass_data = Map.empty, requests = []\<rparr>"

definition example_ssdp :: ssdp_info where
  "example_ssdp =
     \<lparr>upnp_serial = ''00:21:2E:FF:FF:01:11:11'', location_hostname = ''10.0.0.9'',
      location_port = 8080\<rparr>"

definition example_hassio :: hassio_info where
  "example_hassio =
     \<lparr>hassio_serial = ''00:21:2E:FF:FF:01:11:11'', hassio_host = ''core-deconz'',
      hassio_port = 40850, hassio_api_key = ''ADDONKEY'', hassio_addon = ''deCONZ''\<rparr>"

text \<open>
  A user-initiated flow while the record of the bridge exists: the discovery finds the
  bridge, the user chooses it, and the link step obtains a key. Each step is handed to
  the flow manager.
\<close>

definition rediscovery_step1 :: step_outcome where
  "rediscovery_step1 =
     async_handle_step
       (async_step_user example_env (DeconzFlowHandler SOURCE_USER)
          (example_hass [paired_entry SOURCE_USER]) None)"

definition rediscovery_step2 :: step_outcome where
  "rediscovery_step2 =
     async_handle_step
       (async_step_user example_env (flow_of rediscovery_step1) (hass_of rediscovery_step1)
          (Some (Some ''10.0.0.9'')))"

definition rediscovery_step3 :: step_outcome where
  "rediscovery_step3 =
     async_handle_step
       (async_step_link example_env (flow_of rediscovery_step2) (hass_of rediscovery_step2)
          (Some ()))"

text \<open>A re-authentication flow for the record: the entry step, then the link step.\<close>

definition reauth_step1 :: step_outcome where
  "reauth_step1 =
     async_handle_step
       (async_step_reauth example_env (DeconzFlowHandler SOURCE_REAUTH)
          (example_hass [paired_entry SOURCE_USER]) (data (paired_entry SOURCE_USER)))"

definition reauth_step2 :: step_outcome where
  "reauth_step2 =
     async_handle_step
       (async_step_link example_env (flow_of reauth_step1) (hass_of reauth_step1) (Some ()))"


text \<open>
  A handler that has host and port and stands before the link step without a bridge
  id (the user chose manual input after a discovery), and the same handler once it
  holds a key.
\<close>

definition linking_flow :: flow where
  "linking_flow =
     (DeconzFlowHandler SOURCE_USER)
       \<lparr>bridges := Some [\<lparr>b_id = ''00212EFFFF011111'', b_host = ''10.0.0.9'', b_port = 8080\<rparr>],
        host := Some ''10.0.0.9'', port := Some 8080\<rparr>"

definition linked_flow :: flow where
  "linked_flow = linking_flow\<lparr>api_key := Some ''NEWKEY''\<rparr>"

text \<open>Environments in which one of the network calls fails with a given exception.\<close>

definition failing_link_env :: "exn \<Rightarrow> env" where
  "failing_link_env e = example_env\<lparr>get_api_key := (\<lambda>hst prt. Inl e)\<rparr>"

definition failing_discovery_env :: "exn \<Rightarrow> env" where
  "failing_discovery_env e = example_env\<lparr>deconz_discovery := Inl e\<rparr>"

definition failing_identity_env :: "exn \<Rightarrow> env" where
  "failing_identity_env e = example_env\<lparr>deconz_get_bridge_id := (\<lambda>hst prt key. Inl e)\<rparr>"

text \<open>A world whose gateway registry is the given one.\<close>

definition gateways_hass :: "(string \<times> gateway) list \<Rightarrow> hass" where
  "gateways_hass registry =
     \<lparr>config_entries = [], hass_data = [DOMAIN \<mapsto> registry], requests = []\<rparr>"

section \<open>Properties\<close>

lemmas outcome_defs = result_of_def flow_of_def hass_of_def

lemmas step_defs =
  async_step_user_def user_discovery_def async_step_manual_input_def async_step_link_def
  create_entry_def async_create_entry_def async_step_reauth_def async_step_ssdp_def
  async_step_hassio_def async_step_hassio_confirm_def async_set_unique_id_def
  abort_if_unique_id_configured_def async_handle_step_def async_add_def apply_updates_def
  called_def DeconzFlowHandler_def CONF_MANUAL_INPUT_def

lemmas example_defs =
  example_env_def paired_entry_def example_hass_def example_ssdp_def example_hassio_def
  drop_colons_def linking_flow_def linked_flow_def
  failing_link_env_def failing_discovery_env_def failing_identity_env_def

subsection \<open>The store\<close>

lemma one_record_tail:
  "one_record_per_identity (x # xs) \<Longrightarrow> one_record_per_identity xs"
  by (simp add: one_record_per_identity_def split: if_splits)

lemma one_record_head:
  assumes "one_record_per_identity (x # xs)" and "unique_id x = Some uid" and "y \<in> set xs"
  shows "unique_id y \<noteq> Some uid"
proof
  assume "unique_id y = Some uid"
  with assms(3) have "Some uid \<in> unique_id ` set (filter (\<lambda>e. unique_id e \<noteq> None) xs)"
    by force
  with assms(1,2) show False
    by (simp add: one_record_per_identity_def)
qed

lemma find_unique_record:
  assumes "one_record_per_identity es" and "e \<in> set es" and "unique_id e = Some uid"
  shows "find (\<lambda>x. unique_id x = Some uid) es = Some e"
  using assms
proof (induction es)
  case Nil
  then show ?case by simp
next
  case (Cons x xs)
  show ?case
  proof (cases "unique_id x = Some uid")
    case True
    with Cons.prems one_record_head [OF Cons.prems(1) True] have "e = x" by auto
    with True show ?thesis by simp
  next
    case False
    with Cons.prems have "e \<in> set xs" by auto
    with Cons.IH [OF one_record_tail [OF Cons.prems(1)]] Cons.prems(3) False
    show ?thesis by simp
  qed
qed

lemma update_configured_map:
  assumes "one_record_per_identity es" and "e \<in> set es" and "unique_id e = Some uid"
  shows "update_configured uid u es =
           Some (map (\<lambda>x. if unique_id x = Some uid then apply_updates u x else x) es)"
  using assms
proof (induction es)
  case Nil
  then show ?case by simp
next
  case (Cons x xs)
  show ?case
  proof (cases "unique_id x = Some uid")
    case True
    have "map (\<lambda>x. if unique_id x = Some uid then apply_updates u x else x) xs = xs"
      using one_record_head [OF Cons.prems(1) True] by (simp add: map_idI)
    with True show ?thesis by simp
  next
    case False
    with Cons.prems have "e \<in> set xs" by auto
    with Cons.IH [OF one_record_tail [OF Cons.prems(1)]] Cons.prems(3) False
    show ?thesis by simp
  qed
qed

text \<open>An update in place changes no identity, so it keeps the store invariant.\<close>

lemma update_configured_ids:
  "update_configured uid u es = Some es' \<Longrightarrow> map unique_id es' = map unique_id es"
  by (induction es arbitrary: es') (auto simp: apply_updates_def split: if_splits)

lemma update_configured_invariant:
  assumes "update_configured uid u es = Some es'" and "one_record_per_identity es"
  shows "one_record_per_identity es'"
proof -
  have "map unique_id (filter (\<lambda>e. unique_id e \<noteq> None) xs) =
        filter (\<lambda>i. i \<noteq> None) (map unique_id xs)" for xs :: "config_entry list"
    by (simp add: filter_map comp_def)
  with update_configured_ids [OF assms(1)] assms(2) show ?thesis
    by (simp add: one_record_per_identity_def)
qed

text \<open>Writing the record of a finished flow keeps the store invariant.\<close>

lemma async_add_invariant:
  assumes "one_record_per_identity es"
  shows "one_record_per_identity (async_add e es)"
proof (cases "unique_id e")
  case None
  with assms show ?thesis
    by (simp add: async_add_def one_record_per_identity_def)
next
  case (Some uid)
  have swap: "filter (\<lambda>x. unique_id x \<noteq> None) (filter (\<lambda>x. unique_id x \<noteq> Some uid) es) =
      filter (\<lambda>x. unique_id x \<noteq> Some uid) (filter (\<lambda>x. unique_id x \<noteq> None) es)"
    by (induction es) auto
  have "distinct (map unique_id (filter (\<lambda>x. unique_id x \<noteq> None)
          (filter (\<lambda>x. unique_id x \<noteq> Some uid) es)))"
    using assms unfolding one_record_per_identity_def swap
    by (rule distinct_map_filter)
  with Some show ?thesis
    by (auto simp: async_add_def one_record_per_identity_def)
qed

subsection \<open>The master gateway\<close>

lemma first_master_filter:
  "first_master reg =
     (case filter master (map snd reg) of [] \<Rightarrow> Inl ValueError | g # gs \<Rightarrow> Inr g)"
  by (induction reg rule: first_master.induct) auto

text \<open>
  C10. With the registry of the domain in place, \<^verbatim>\<open>get_master_gateway\<close> returns the
  first gateway, in the registry's order, whose master flag is set; when no gateway of
  the registry is marked master it raises ValueError. There is no third answer.
\<close>

theorem get_master_gateway_first_or_raise:
  assumes "hass_data h DOMAIN = Some reg"
  shows "get_master_gateway h =
           (if \<exists>g \<in> set (map snd reg). master g
            then Inr (hd (filter master (map snd reg)))
            else Inl ValueError)"
proof (cases "filter master (map snd reg)")
  case Nil
  then have "\<not> (\<exists>g \<in> set (map snd reg). master g)"
    by (simp add: filter_empty_conv)
  with Nil assms show ?thesis
    by (simp add: get_master_gateway_def first_master_filter)
next
  case (Cons g gs)
  then have "g \<in> set (filter master (map snd reg))" by simp
  then have "\<exists>g \<in> set (map snd reg). master g" by auto
  with Cons assms show ?thesis
    by (simp add: get_master_gateway_def first_master_filter)
qed

theorem get_master_gateway_first_or_raise_witness:
  "hass_data (gateways_hass
      [(''a'', \<lparr>gateway_bridgeid = ''01'', master = False\<rparr>),
       (''b'', \<lparr>gateway_bridgeid = ''02'', master = True\<rparr>),
       (''c'', \<lparr>gateway_bridgeid = ''03'', master = True\<rparr>)]) DOMAIN =
     Some [(''a'', \<lparr>gateway_bridgeid = ''01'', master = False\<rparr>),
           (''b'', \<lparr>gateway_bridgeid = ''02'', master = True\<rparr>),
           (''c'', \<lparr>gateway_bridgeid = ''03'', master = True\<rparr>)] \<and>
   get_master_gateway (gateways_hass
      [(''a'', \<lparr>gateway_bridgeid = ''01'', master = False\<rparr>),
       (''b'', \<lparr>gateway_bridgeid = ''02'', master = True\<rparr>),
       (''c'', \<lparr>gateway_bridgeid = ''03'', master = True\<rparr>)]) =
     Inr \<lparr>gateway_bridgeid = ''02'', master = True\<rparr> \<and>
   hass_data (gateways_hass [(''a'', \<lparr>gateway_bridgeid = ''01'', master = False\<rparr>)]) DOMAIN =
     Some [(''a'', \<lparr>gateway_bridgeid = ''01'', master = False\<rparr>)] \<and>
   get_master_gateway (gateways_hass [(''a'', \<lparr>gateway_bridgeid = ''01'', master = False\<rparr>)]) =
     Inl ValueError"
proof -
  have reg: "hass_data (gateways_hass r) DOMAIN = Some r" for r
    by (simp add: gateways_hass_def)
  show ?thesis
    using get_master_gateway_first_or_raise [OF reg, of
        "[(''a'', \<lparr>gateway_bridgeid = ''01'', master = False\<rparr>),
          (''b'', \<lparr>gateway_bridgeid = ''02'', master = True\<rparr>),
          (''c'', \<lparr>gateway_bridgeid = ''03'', master = True\<rparr>)]"]
      get_master_gateway_first_or_raise [OF reg, of
        "[(''a'', \<lparr>gateway_bridgeid = ''01'', master = False\<rparr>)]"]
    by (simp add: reg)
qed

subsection \<open>Announcements against a record of the host platform\<close>

lemma ssdp_hassio_record:
  assumes "one_record_per_identity (config_entries h)"
      and "e \<in> set (config_entries h)"
      and "unique_id e = Some (normalize_bridge_id env (upnp_serial info))"
      and "source e = SOURCE_HASSIO"
  shows "async_step_ssdp env f h info =
           (Inr (Abort ''already_configured''),
            f\<lparr>bridge_id := normalize_bridge_id env (upnp_serial info),
              flow_unique_id := Some (normalize_bridge_id env (upnp_serial info))\<rparr>, h)"
  using find_unique_record [OF assms(1,2,3)] assms(4)
  by (simp add: async_step_ssdp_def async_set_unique_id_def)

lemma hassio_existing_record:
  assumes "one_record_per_identity (config_entries h)"
      and "e \<in> set (config_entries h)"
      and "unique_id e = Some (normalize_bridge_id env (hassio_serial info))"
  shows "async_step_hassio env f h info =
           (Inl (AbortFlow ''already_configured''),
            f\<lparr>bridge_id := normalize_bridge_id env (hassio_serial info),
              flow_unique_id := Some (normalize_bridge_id env (hassio_serial info)),
              host := Some (hassio_host info), port := Some (hassio_port info),
              api_key := Some (hassio_api_key info)\<rparr>,
            h\<lparr>config_entries :=
                map (\<lambda>x. if unique_id x = Some (normalize_bridge_id env (hassio_serial info))
                          then x\<lparr>data := \<lparr>conf_host = hassio_host info,
                                          conf_port = hassio_port info,
                                          conf_api_key = hassio_api_key info\<rparr>\<rparr>
                          else x) (config_entries h)\<rparr>)"
  using update_configured_map [OF assms]
  by (simp add: async_step_hassio_def async_set_unique_id_def
      abort_if_unique_id_configured_def apply_updates_def)

lemma example_store_invariant:
  "one_record_per_identity (config_entries (example_hass [paired_entry src]))"
  by (simp add: one_record_per_identity_def example_hass_def paired_entry_def)

lemma example_store_member:
  "paired_entry src \<in> set (config_entries (example_hass [paired_entry src]))"
  by (simp add: example_hass_def)

lemma example_ssdp_identity:
  "unique_id (paired_entry src) =
     Some (normalize_bridge_id example_env (upnp_serial example_ssdp))"
  by (simp add: example_defs)

lemma example_hassio_identity:
  "unique_id (paired_entry src) =
     Some (normalize_bridge_id example_env (hassio_serial example_hassio))"
  by (simp add: example_defs)

lemma example_source: "source (paired_entry src) = src"
  by (simp add: paired_entry_def)

text \<open>
  C2, as the claim states it, fails for the Hass.io announcement: the step has no test
  of the record's source. Announced against the record that the host platform itself
  created, it writes the announced host, port and key over the record's data before
  the flow aborts.
\<close>

theorem hassio_announcement_rewrites_hassio_record:
  "source (paired_entry SOURCE_HASSIO) = SOURCE_HASSIO \<and>
   unique_id (paired_entry SOURCE_HASSIO) =
     Some (normalize_bridge_id example_env (hassio_serial example_hassio)) \<and>
   result_of (async_handle_step
      (async_step_hassio example_env (DeconzFlowHandler SOURCE_HASSIO)
         (example_hass [paired_entry SOURCE_HASSIO]) example_hassio)) =
     Inr (Abort ''already_configured'') \<and>
   config_entries (hass_of
      (async_step_hassio example_env (DeconzFlowHandler SOURCE_HASSIO)
         (example_hass [paired_entry SOURCE_HASSIO]) example_hassio)) =
     [(paired_entry SOURCE_HASSIO)
        \<lparr>data := \<lparr>conf_host = ''core-deconz'', conf_port = 40850,
                   conf_api_key = ''ADDONKEY''\<rparr>\<rparr>] \<and>
   config_entries (hass_of
      (async_step_hassio example_env (DeconzFlowHandler SOURCE_HASSIO)
         (example_hass [paired_entry SOURCE_HASSIO]) example_hassio)) \<noteq>
     config_entries (example_hass [paired_entry SOURCE_HASSIO])"
  by (simp add: outcome_defs step_defs example_defs)

text \<open>
  C2, amended. In a store with one record for each identity, let a record of Hass.io
  origin exist. An SSDP announcement of its identity aborts the flow as already
  configured and leaves every stored record as it was. A Hass.io announcement of its
  identity also aborts the flow as already configured, and the record of that identity
  has its host, port and key replaced by the announced ones; the other records stay.
\<close>

theorem announcement_against_hassio_record:
  assumes "one_record_per_identity (config_entries h)"
      and "e \<in> set (config_entries h)"
      and "source e = SOURCE_HASSIO"
  shows "(unique_id e = Some (normalize_bridge_id env (upnp_serial si)) \<longrightarrow>
            result_of (async_handle_step (async_step_ssdp env f h si)) =
              Inr (Abort ''already_configured'') \<and>
            config_entries (hass_of (async_handle_step (async_step_ssdp env f h si))) =
              config_entries h) \<and>
         (unique_id e = Some (normalize_bridge_id env (hassio_serial hi)) \<longrightarrow>
            result_of (async_handle_step (async_step_hassio env f h hi)) =
              Inr (Abort ''already_configured'') \<and>
            config_entries (hass_of (async_handle_step (async_step_hassio env f h hi))) =
              map (\<lambda>x. if unique_id x = Some (normalize_bridge_id env (hassio_serial hi))
                        then x\<lparr>data := \<lparr>conf_host = hassio_host hi,
                                        conf_port = hassio_port hi,
                                        conf_api_key = hassio_api_key hi\<rparr>\<rparr>
                        else x) (config_entries h))"
proof (intro conjI impI)
  assume uid: "unique_id e = Some (normalize_bridge_id env (upnp_serial si))"
  note out = ssdp_hassio_record [OF assms(1,2) uid assms(3), of f]
  show "result_of (async_handle_step (async_step_ssdp env f h si)) =
          Inr (Abort ''already_configured'')"
    by (simp add: out async_handle_step_def result_of_def)
  show "config_entries (hass_of (async_handle_step (async_step_ssdp env f h si))) =
          config_entries h"
    by (simp add: out async_handle_step_def hass_of_def)
next
  assume uid: "unique_id e = Some (normalize_bridge_id env (hassio_serial hi))"
  note out = hassio_existing_record [OF assms(1,2) uid, of f]
  show "result_of (async_handle_step (async_step_hassio env f h hi)) =
          Inr (Abort ''already_configured'')"
    by (simp add: out async_handle_step_def result_of_def)
  show "config_entries (hass_of (async_handle_step (async_step_hassio env f h hi))) =
          map (\<lambda>x. if unique_id x = Some (normalize_bridge_id env (hassio_serial hi))
                    then x\<lparr>data := \<lparr>conf_host = hassio_host hi,
                                    conf_port = hassio_port hi,
                                    conf_api_key = hassio_api_key hi\<rparr>\<rparr>
                    else x) (config_entries h)"
    by (simp add: out async_handle_step_def hass_of_def)
qed

theorem announcement_against_hassio_record_witness:
  "one_record_per_identity (config_entries (example_hass [paired_entry SOURCE_HASSIO])) \<and>
   paired_entry SOURCE_HASSIO \<in> set (config_entries (example_hass [paired_entry SOURCE_HASSIO])) \<and>
   source (paired_entry SOURCE_HASSIO) = SOURCE_HASSIO \<and>
   unique_id (paired_entry SOURCE_HASSIO) =
     Some (normalize_bridge_id example_env (upnp_serial example_ssdp)) \<and>
   unique_id (paired_entry SOURCE_HASSIO) =
     Some (normalize_bridge_id example_env (hassio_serial example_hassio)) \<and>
   result_of (async_handle_step
      (async_step_ssdp example_env (DeconzFlowHandler SOURCE_SSDP)
         (example_hass [paired_entry SOURCE_HASSIO]) example_ssdp)) =
     Inr (Abort ''already_configured'') \<and>
   config_entries (hass_of (async_handle_step
      (async_step_ssdp example_env (DeconzFlowHandler SOURCE_SSDP)
         (example_hass [paired_entry SOURCE_HASSIO]) example_ssdp))) =
     [paired_entry SOURCE_HASSIO] \<and>
   result_of (async_handle_step
      (async_step_hassio example_env (DeconzFlowHandler SOURCE_SSDP)
         (example_hass [paired_entry SOURCE_HASSIO]) example_hassio)) =
     Inr (Abort ''already_configured'') \<and>
   config_entries (hass_of (async_handle_step
      (async_step_hassio example_env (DeconzFlowHandler SOURCE_SSDP)
         (example_hass [paired_entry SOURCE_HASSIO]) example_hassio))) =
     [(paired_entry SOURCE_HASSIO)
        \<lparr>data := \<lparr>conf_host = ''core-deconz'', conf_port = 40850,
                   conf_api_key = ''ADDONKEY''\<rparr>\<rparr>]"
proof -
  note hyps = example_store_invariant [of SOURCE_HASSIO]
    example_store_member [of SOURCE_HASSIO] example_source [of SOURCE_HASSIO]
  note concl = announcement_against_hassio_record [OF hyps, of example_env example_ssdp
      "DeconzFlowHandler SOURCE_SSDP" example_hassio]
  have store: "config_entries (example_hass [paired_entry SOURCE_HASSIO]) =
      [paired_entry SOURCE_HASSIO]"
    by (simp add: example_hass_def)
  have announced: "hassio_host example_hassio = ''core-deconz'' \<and>
      hassio_port example_hassio = 40850 \<and> hassio_api_key example_hassio = ''ADDONKEY''"
    by (simp add: example_hassio_def)
  show ?thesis
    using hyps concl example_ssdp_identity [of SOURCE_HASSIO]
      example_hassio_identity [of SOURCE_HASSIO]
    by (simp add: store announced)
qed

text \<open>
  C3. In a store with one record for each identity, an SSDP announcement whose
  normalised serial is the identity of a record of Hass.io origin ends the step at once
  with the abort reason \<^verbatim>\<open>already_configured\<close>: the world is returned as it was, so
  the log of network calls has gained no entry (no key was asked of the bridge), and
  the handler has not even received host and port.
\<close>

theorem ssdp_aborts_before_linking:
  assumes "one_record_per_identity (config_entries h)"
      and "e \<in> set (config_entries h)"
      and "unique_id e = Some (normalize_bridge_id env (upnp_serial info))"
      and "source e = SOURCE_HASSIO"
  shows "result_of (async_step_ssdp env f h info) = Inr (Abort ''already_configured'') \<and>
         hass_of (async_step_ssdp env f h info) = h \<and>
         requests (hass_of (async_step_ssdp env f h info)) = requests h \<and>
         host (flow_of (async_step_ssdp env f h info)) = host f \<and>
         port (flow_of (async_step_ssdp env f h info)) = port f"
  by (simp add: ssdp_hassio_record [OF assms] outcome_defs)

theorem ssdp_aborts_before_linking_witness:
  "one_record_per_identity (config_entries (example_hass [paired_entry SOURCE_HASSIO])) \<and>
   paired_entry SOURCE_HASSIO \<in> set (config_entries (example_hass [paired_entry SOURCE_HASSIO])) \<and>
   unique_id (paired_entry SOURCE_HASSIO) =
     Some (normalize_bridge_id example_env (upnp_serial example_ssdp)) \<and>
   source (paired_entry SOURCE_HASSIO) = SOURCE_HASSIO \<and>
   result_of (async_step_ssdp example_env (DeconzFlowHandler SOURCE_SSDP)
      (example_hass [paired_entry SOURCE_HASSIO]) example_ssdp) =
     Inr (Abort ''already_configured'') \<and>
   requests (hass_of (async_step_ssdp example_env (DeconzFlowHandler SOURCE_SSDP)
      (example_hass [paired_entry SOURCE_HASSIO]) example_ssdp)) = []"
proof -
  note hyps = example_store_invariant [of SOURCE_HASSIO]
    example_store_member [of SOURCE_HASSIO] example_ssdp_identity [of SOURCE_HASSIO]
    example_source [of SOURCE_HASSIO]
  have log: "requests (example_hass [paired_entry SOURCE_HASSIO]) = []"
    by (simp add: example_hass_def)
  show ?thesis
    using hyps ssdp_aborts_before_linking [OF hyps, of "DeconzFlowHandler SOURCE_SSDP"]
    by (simp add: log)
qed


subsection \<open>The link step\<close>

lemma linking_flow_host: "host linking_flow = Some ''10.0.0.9''"
  by (simp add: linking_flow_def DeconzFlowHandler_def)

lemma linking_flow_port: "port linking_flow = Some 8080"
  by (simp add: linking_flow_def DeconzFlowHandler_def)

lemma linking_flow_bridge_id: "bridge_id linking_flow = []"
  by (simp add: linking_flow_def DeconzFlowHandler_def)

lemma failing_link_answer: "get_api_key (failing_link_env e) hst prt = Inl e"
  by (simp add: failing_link_env_def)

lemma example_link_answer: "get_api_key example_env hst prt = Inr ''NEWKEY''"
  by (simp add: example_env_def)

text \<open>
  C4. With input, the link step asks the bridge for a key. A key takes the flow on to
  \<^verbatim>\<open>_create_entry\<close> with that key stored on the handler. LinkButtonNotPressed shows
  the link form again with the reason \<^verbatim>\<open>linking_not_possible\<close>. A response error, a
  request error or a timeout shows the link form again with the reason \<^verbatim>\<open>no_key\<close>.
  None of the failures aborts the flow.
\<close>

theorem link_step_outcomes:
  assumes "host f = Some hst" and "port f = Some prt"
  shows "(get_api_key env hst prt = Inr key \<longrightarrow>
            async_step_link env f h (Some ()) =
              create_entry env (f\<lparr>api_key := Some key\<rparr>) (called (GetApiKey hst prt) h)) \<and>
         (get_api_key env hst prt = Inl LinkButtonNotPressed \<longrightarrow>
            async_step_link env f h (Some ()) =
              (Inr (ShowForm ''link'' [] [(''base'', ''linking_not_possible'')] []), f,
               called (GetApiKey hst prt) h)) \<and>
         (get_api_key env hst prt \<in> {Inl ResponseError, Inl RequestError, Inl TimeoutError} \<longrightarrow>
            async_step_link env f h (Some ()) =
              (Inr (ShowForm ''link'' [] [(''base'', ''no_key'')] []), f,
               called (GetApiKey hst prt) h))"
  using assms by (auto simp: async_step_link_def)

theorem link_step_outcomes_witness:
  "host linking_flow = Some ''10.0.0.9'' \<and> port linking_flow = Some 8080 \<and>
   get_api_key example_env ''10.0.0.9'' 8080 = Inr ''NEWKEY'' \<and>
   async_step_link example_env linking_flow (example_hass []) (Some ()) =
     create_entry example_env (linking_flow\<lparr>api_key := Some ''NEWKEY''\<rparr>)
       (called (GetApiKey ''10.0.0.9'' 8080) (example_hass [])) \<and>
   get_api_key (failing_link_env LinkButtonNotPressed) ''10.0.0.9'' 8080 =
     Inl LinkButtonNotPressed \<and>
   async_step_link (failing_link_env LinkButtonNotPressed) linking_flow (example_hass [])
       (Some ()) =
     (Inr (ShowForm ''link'' [] [(''base'', ''linking_not_possible'')] []), linking_flow,
      called (GetApiKey ''10.0.0.9'' 8080) (example_hass [])) \<and>
   get_api_key (failing_link_env TimeoutError) ''10.0.0.9'' 8080 \<in>
     {Inl ResponseError, Inl RequestError, Inl TimeoutError} \<and>
   async_step_link (failing_link_env TimeoutError) linking_flow (example_hass []) (Some ()) =
     (Inr (ShowForm ''link'' [] [(''base'', ''no_key'')] []), linking_flow,
      called (GetApiKey ''10.0.0.9'' 8080) (example_hass []))"
  using link_step_outcomes [OF linking_flow_host linking_flow_port,
      of example_env "''NEWKEY''" "example_hass []"]
    link_step_outcomes [OF linking_flow_host linking_flow_port,
      of "failing_link_env LinkButtonNotPressed" "''NEWKEY''" "example_hass []"]
    link_step_outcomes [OF linking_flow_host linking_flow_port,
      of "failing_link_env TimeoutError" "''NEWKEY''" "example_hass []"]
  by (simp add: linking_flow_host linking_flow_port failing_link_answer example_link_answer)

lemma create_entry_log_independent:
  assumes "config_entries h' = config_entries h"
  shows "result_of (create_entry env f h') = result_of (create_entry env f h) \<and>
         flow_of (create_entry env f h') = flow_of (create_entry env f h) \<and>
         config_entries (hass_of (create_entry env f h')) =
           config_entries (hass_of (create_entry env f h))"
  using assms
  by (auto simp: create_entry_def async_create_entry_def abort_if_unique_id_configured_def
      async_set_unique_id_def called_def outcome_defs Let_def
      split: option.splits sum.splits exn.splits prod.splits)

text \<open>
  C5. When the key request of the link step fails with LinkButtonNotPressed, a response
  error, a request error or a timeout, the step shows the link form with a reason, the
  handler is returned exactly as it was (so host and port are unchanged) and no stored
  record is touched. A later successful key request from that state enters
  \<^verbatim>\<open>_create_entry\<close> with the same host and port, and ends with the same result and
  the same stored records as a success at the first attempt.
\<close>

theorem link_failure_keeps_session:
  assumes "host f = Some hst" and "port f = Some prt"
      and "get_api_key env hst prt = Inl e"
      and "e \<in> {LinkButtonNotPressed, ResponseError, RequestError, TimeoutError}"
      and "get_api_key env' hst prt = Inr key"
  shows "(\<exists>reason. result_of (async_step_link env f h (Some ())) =
            Inr (ShowForm ''link'' [] [(''base'', reason)] [])) \<and>
         flow_of (async_step_link env f h (Some ())) = f \<and>
         config_entries (hass_of (async_step_link env f h (Some ()))) = config_entries h \<and>
         async_step_link env' (flow_of (async_step_link env f h (Some ())))
             (hass_of (async_step_link env f h (Some ()))) (Some ()) =
           create_entry env' (f\<lparr>api_key := Some key\<rparr>)
             (called (GetApiKey hst prt) (hass_of (async_step_link env f h (Some ())))) \<and>
         result_of (async_step_link env' (flow_of (async_step_link env f h (Some ())))
             (hass_of (async_step_link env f h (Some ()))) (Some ())) =
           result_of (async_step_link env' f h (Some ())) \<and>
         config_entries (hass_of (async_step_link env'
             (flow_of (async_step_link env f h (Some ())))
             (hass_of (async_step_link env f h (Some ()))) (Some ()))) =
           config_entries (hass_of (async_step_link env' f h (Some ())))"
proof -
  have fail: "\<exists>reason. async_step_link env f h (Some ()) =
      (Inr (ShowForm ''link'' [] [(''base'', reason)] []), f, called (GetApiKey hst prt) h)"
    using assms(1-4) by (auto simp: async_step_link_def)
  then obtain reason where out: "async_step_link env f h (Some ()) =
      (Inr (ShowForm ''link'' [] [(''base'', reason)] []), f, called (GetApiKey hst prt) h)"
    by blast
  have retry: "async_step_link env' f h2 (Some ()) =
      create_entry env' (f\<lparr>api_key := Some key\<rparr>) (called (GetApiKey hst prt) h2)" for h2
    using assms(1,2,5) by (simp add: async_step_link_def)
  have same: "config_entries (called (GetApiKey hst prt) (called (GetApiKey hst prt) h)) =
      config_entries (called (GetApiKey hst prt) h)"
    by (simp add: called_def)
  note indep = create_entry_log_independent [OF same, of env' "f\<lparr>api_key := Some key\<rparr>"]
  show ?thesis
    using indep by (simp add: out retry outcome_defs called_def)
qed

theorem link_failure_keeps_session_witness:
  "host linking_flow = Some ''10.0.0.9'' \<and> port linking_flow = Some 8080 \<and>
   get_api_key (failing_link_env LinkButtonNotPressed) ''10.0.0.9'' 8080 =
     Inl LinkButtonNotPressed \<and>
   LinkButtonNotPressed \<in> {LinkButtonNotPressed, ResponseError, RequestError, TimeoutError} \<and>
   get_api_key example_env ''10.0.0.9'' 8080 = Inr ''NEWKEY'' \<and>
   flow_of (async_step_link (failing_link_env LinkButtonNotPressed) linking_flow
              (example_hass []) (Some ())) = linking_flow \<and>
   config_entries (hass_of (async_step_link (failing_link_env LinkButtonNotPressed)
              linking_flow (example_hass []) (Some ()))) = config_entries (example_hass []) \<and>
   result_of (async_step_link example_env
       (flow_of (async_step_link (failing_link_env LinkButtonNotPressed) linking_flow
                   (example_hass []) (Some ())))
       (hass_of (async_step_link (failing_link_env LinkButtonNotPressed) linking_flow
                   (example_hass []) (Some ()))) (Some ())) =
     result_of (async_step_link example_env linking_flow (example_hass []) (Some ()))"
proof -
  have e: "LinkButtonNotPressed \<in>
      {LinkButtonNotPressed, ResponseError, RequestError, TimeoutError}"
    by simp
  have a: "get_api_key (failing_link_env LinkButtonNotPressed) ''10.0.0.9'' 8080 =
      Inl LinkButtonNotPressed"
    by (rule failing_link_answer)
  have k: "get_api_key example_env ''10.0.0.9'' 8080 = Inr ''NEWKEY''"
    by (rule example_link_answer)
  show ?thesis
    using link_failure_keeps_session [OF linking_flow_host linking_flow_port a e k,
        of "example_hass []"] linking_flow_host linking_flow_port a e k
    by blast
qed

subsection \<open>Discovery in the user step\<close>

text \<open>
  The two failures of the discovery call that the user step catches: after a timeout or
  a response error the list of bridges is the empty list and the step answers with the
  form of the manual-input step, on entry (no input) and when the step is entered again
  with a host that is none of the known bridges.
\<close>

lemma caught_discovery_failures_go_to_manual_input:
  assumes "deconz_discovery env = Inl e" and "e = TimeoutError \<or> e = ResponseError"
  shows "async_step_user env f h None =
           (Inr (ShowForm ''manual_input'' [] [] []), f\<lparr>bridges := Some []\<rparr>,
            called Discovery h) \<and>
         (chosen \<noteq> CONF_MANUAL_INPUT \<and> bridges f = Some bs \<and>
          find (\<lambda>b. b_host b = chosen) bs = None \<longrightarrow>
            async_step_user env f h (Some (Some chosen)) =
              (Inr (ShowForm ''manual_input'' [] [] []), f\<lparr>bridges := Some []\<rparr>,
               called Discovery h))"
  using assms
  by (auto simp: async_step_user_def user_discovery_def async_step_manual_input_def)

text \<open>Every other exception of the discovery call leaves the user step.\<close>

lemma other_discovery_failures_leave_user_step:
  assumes "deconz_discovery env = Inl e" and "e \<noteq> TimeoutError" and "e \<noteq> ResponseError"
  shows "async_step_user env f h None = (Inl e, f, called Discovery h)"
  using assms
  by (cases e) (simp_all add: async_step_user_def user_discovery_def)

text \<open>
  C6. The code at the input where the claim fails. The user step catches the timeout
  and the response error of the discovery call and nothing else. When the discovery
  call raises a request error, the exception leaves the step: the caller gets the
  exception, no form of the manual-input step is shown and the list of bridges is not
  set. The link step, for its own call, catches the request error and shows its form.
\<close>

theorem discovery_request_error_leaves_user_step:
  "deconz_discovery (failing_discovery_env RequestError) = Inl RequestError \<and>
   async_step_user (failing_discovery_env RequestError) (DeconzFlowHandler SOURCE_USER)
       (example_hass []) None =
     (Inl RequestError, DeconzFlowHandler SOURCE_USER, called Discovery (example_hass [])) \<and>
   bridges (flow_of (async_step_user (failing_discovery_env RequestError)
       (DeconzFlowHandler SOURCE_USER) (example_hass []) None)) = None \<and>
   async_step_user (failing_discovery_env TimeoutError) (DeconzFlowHandler SOURCE_USER)
       (example_hass []) None =
     (Inr (ShowForm ''manual_input'' [] [] []),
      (DeconzFlowHandler SOURCE_USER)\<lparr>bridges := Some []\<rparr>,
      called Discovery (example_hass [])) \<and>
   result_of (async_step_link (failing_link_env RequestError) linking_flow (example_hass [])
       (Some ())) =
     Inr (ShowForm ''link'' [] [(''base'', ''no_key'')] [])"
  by (simp add: outcome_defs step_defs example_defs)

subsection \<open>Resolving the identity\<close>

lemma linked_flow_fields:
  "bridge_id linked_flow = [] \<and> host linked_flow = Some ''10.0.0.9'' \<and>
   port linked_flow = Some 8080 \<and> api_key linked_flow = Some ''NEWKEY''"
  by (simp add: linked_flow_def linking_flow_def DeconzFlowHandler_def)

text \<open>
  C7. When the bridge id of the handler is still empty at \<^verbatim>\<open>_create_entry\<close> and the
  identity call times out, the step ends the flow with the abort reason
  \<^verbatim>\<open>no_bridges\<close>: the outcome is an abort, not a form to try again, the handler is
  unchanged, and after the flow manager has handled the outcome the stored records are
  the ones from before, so no record was created.
\<close>

theorem identity_timeout_aborts:
  assumes "bridge_id f = []"
      and "host f = Some hst" and "port f = Some prt" and "api_key f = Some key"
      and "deconz_get_bridge_id env hst prt key = Inl TimeoutError"
  shows "create_entry env f h =
           (Inr (Abort ''no_bridges''), f, called (GetBridgeId hst prt key) h) \<and>
         result_of (async_handle_step (create_entry env f h)) = Inr (Abort ''no_bridges'') \<and>
         config_entries (hass_of (async_handle_step (create_entry env f h))) =
           config_entries h"
  using assms
  by (simp add: create_entry_def async_handle_step_def called_def outcome_defs)

theorem identity_timeout_aborts_witness:
  "bridge_id linked_flow = [] \<and> host linked_flow = Some ''10.0.0.9'' \<and>
   port linked_flow = Some 8080 \<and> api_key linked_flow = Some ''NEWKEY'' \<and>
   deconz_get_bridge_id (failing_identity_env TimeoutError) ''10.0.0.9'' 8080 ''NEWKEY'' =
     Inl TimeoutError \<and>
   create_entry (failing_identity_env TimeoutError) linked_flow
       (example_hass [paired_entry SOURCE_USER]) =
     (Inr (Abort ''no_bridges''), linked_flow,
      called (GetBridgeId ''10.0.0.9'' 8080 ''NEWKEY'')
        (example_hass [paired_entry SOURCE_USER])) \<and>
   config_entries (hass_of (async_handle_step
      (create_entry (failing_identity_env TimeoutError) linked_flow
         (example_hass [paired_entry SOURCE_USER])))) =
     config_entries (example_hass [paired_entry SOURCE_USER])"
proof -
  have t: "deconz_get_bridge_id (failing_identity_env TimeoutError) ''10.0.0.9'' 8080
      ''NEWKEY'' = Inl TimeoutError"
    by (simp add: failing_identity_env_def)
  note fields = linked_flow_fields
  show ?thesis
    using identity_timeout_aborts [OF fields [THEN conjunct1]
        fields [THEN conjunct2, THEN conjunct1]
        fields [THEN conjunct2, THEN conjunct2, THEN conjunct1]
        fields [THEN conjunct2, THEN conjunct2, THEN conjunct2] t,
        of "example_hass [paired_entry SOURCE_USER]"] fields t
    by blast
qed

subsection \<open>Where the identity is normalised\<close>




subsection \<open>Re-authentication\<close>

lemma create_entry_requests:
  assumes "bridge_id f = []" and "host f = Some hst" and "port f = Some prt"
      and "api_key f = Some key"
  shows "requests (hass_of (create_entry env f h)) = requests h @ [GetBridgeId hst prt key]"
  using assms
  by (auto simp: create_entry_def async_create_entry_def abort_if_unique_id_configured_def
      async_set_unique_id_def called_def hass_of_def Let_def
      split: option.splits sum.splits exn.splits prod.splits)

text \<open>
  C9, as the claim states it, fails in its last part: the re-authentication step gives
  the handler host and port and nothing else, so the bridge id is still the empty string
  of the constructor, and after the key has been obtained the identity call is made.
\<close>

theorem reauth_flow_asks_for_identity:
  "result_of reauth_step1 = Inr (ShowForm ''link'' [] [] []) \<and>
   bridge_id (flow_of reauth_step1) = [] \<and>
   requests (hass_of reauth_step2) =
     [GetApiKey ''1.2.3.4'' 80, GetBridgeId ''1.2.3.4'' 80 ''NEWKEY''] \<and>
   GetBridgeId ''1.2.3.4'' 80 ''NEWKEY'' \<in> set (requests (hass_of reauth_step2))"
  by (simp add: reauth_step2_def reauth_step1_def outcome_defs step_defs example_defs)

text \<open>
  C9, amended. The re-authentication step of a new handler stores the host and port of
  the given entry data on the handler, makes no network call (no discovery) and answers
  with the form of the link step. The bridge id of the handler is still empty, so the
  identity is not known to the flow: once the link step has obtained a key, the identity
  call is made, with that host, port and key.
\<close>

theorem reauth_links_then_resolves_identity:
  "async_step_reauth env (DeconzFlowHandler SOURCE_REAUTH) h ed =
     (Inr (ShowForm ''link'' [] [] []),
      (DeconzFlowHandler SOURCE_REAUTH)
        \<lparr>host := Some (conf_host ed), port := Some (conf_port ed)\<rparr>, h) \<and>
   bridge_id (flow_of (async_step_reauth env (DeconzFlowHandler SOURCE_REAUTH) h ed)) = [] \<and>
   (get_api_key env (conf_host ed) (conf_port ed) = Inr key \<longrightarrow>
      requests (hass_of (async_step_link env
          (flow_of (async_step_reauth env (DeconzFlowHandler SOURCE_REAUTH) h ed))
          (hass_of (async_step_reauth env (DeconzFlowHandler SOURCE_REAUTH) h ed))
          (Some ()))) =
        requests h @ [GetApiKey (conf_host ed) (conf_port ed),
                      GetBridgeId (conf_host ed) (conf_port ed) key])"
proof -
  let ?f = "(DeconzFlowHandler SOURCE_REAUTH)
              \<lparr>host := Some (conf_host ed), port := Some (conf_port ed)\<rparr>"
  have out: "async_step_reauth env (DeconzFlowHandler SOURCE_REAUTH) h ed =
      (Inr (ShowForm ''link'' [] [] []), ?f, h)"
    by (simp add: async_step_reauth_def async_step_link_def)
  have empty: "bridge_id ?f = []"
    by (simp add: DeconzFlowHandler_def)
  have link: "requests (hass_of (async_step_link env ?f h (Some ()))) =
      requests h @ [GetApiKey (conf_host ed) (conf_port ed),
                    GetBridgeId (conf_host ed) (conf_port ed) key]"
    if "get_api_key env (conf_host ed) (conf_port ed) = Inr key"
  proof -
    have "async_step_link env ?f h (Some ()) =
        create_entry env (?f\<lparr>api_key := Some key\<rparr>)
          (called (GetApiKey (conf_host ed) (conf_port ed)) h)"
      using that by (simp add: async_step_link_def)
    then show ?thesis
      using create_entry_requests [of "?f\<lparr>api_key := Some key\<rparr>" "conf_host ed"
          "conf_port ed" key env "called (GetApiKey (conf_host ed) (conf_port ed)) h"] empty
      by (simp add: called_def)
  qed
  show ?thesis
    using link empty by (simp add: out outcome_defs)
qed

theorem reauth_links_then_resolves_identity_witness:
  "get_api_key example_env (conf_host (data (paired_entry SOURCE_USER)))
     (conf_port (data (paired_entry SOURCE_USER))) = Inr ''NEWKEY'' \<and>
   requests (hass_of (async_step_link example_env
       (flow_of (async_step_reauth example_env (DeconzFlowHandler SOURCE_REAUTH)
          (example_hass [paired_entry SOURCE_USER]) (data (paired_entry SOURCE_USER))))
       (hass_of (async_step_reauth example_env (DeconzFlowHandler SOURCE_REAUTH)
          (example_hass [paired_entry SOURCE_USER]) (data (paired_entry SOURCE_USER))))
       (Some ()))) =
     [GetApiKey ''1.2.3.4'' 80, GetBridgeId ''1.2.3.4'' 80 ''NEWKEY'']"
proof -
  have d: "conf_host (data (paired_entry SOURCE_USER)) = ''1.2.3.4'' \<and>
      conf_port (data (paired_entry SOURCE_USER)) = 80"
    by (simp add: paired_entry_def)
  have log: "requests (example_hass [paired_entry SOURCE_USER]) = []"
    by (simp add: example_hass_def)
  have k: "get_api_key example_env (conf_host (data (paired_entry SOURCE_USER)))
      (conf_port (data (paired_entry SOURCE_USER))) = Inr ''NEWKEY''"
    by (rule example_link_answer)
  have "requests (hass_of (async_step_link example_env
       (flow_of (async_step_reauth example_env (DeconzFlowHandler SOURCE_REAUTH)
          (example_hass [paired_entry SOURCE_USER]) (data (paired_entry SOURCE_USER))))
       (hass_of (async_step_reauth example_env (DeconzFlowHandler SOURCE_REAUTH)
          (example_hass [paired_entry SOURCE_USER]) (data (paired_entry SOURCE_USER))))
       (Some ()))) =
     requests (example_hass [paired_entry SOURCE_USER]) @
       [GetApiKey (conf_host (data (paired_entry SOURCE_USER)))
          (conf_port (data (paired_entry SOURCE_USER))),
        GetBridgeId (conf_host (data (paired_entry SOURCE_USER)))
          (conf_port (data (paired_entry SOURCE_USER))) ''NEWKEY'']"
    using reauth_links_then_resolves_identity [of example_env
        "example_hass [paired_entry SOURCE_USER]" "data (paired_entry SOURCE_USER)"
        "''NEWKEY''"] k
    by blast
  then show ?thesis
    by (simp add: d log example_link_answer)
qed

subsection \<open>Pairing a bridge that has a record\<close>

lemma rediscovery_step1_eq:
  "rediscovery_step1 =
     (Inr (ShowForm ''user'' [''10.0.0.9'', ''Manually define gateway''] [] []),
      (DeconzFlowHandler SOURCE_USER)
        \<lparr>bridges := Some [\<lparr>b_id = ''00212EFFFF011111'', b_host = ''10.0.0.9'', b_port = 8080\<rparr>]\<rparr>,
      \<lparr>config_entries = [paired_entry SOURCE_USER], hass_data = Map.empty,
       requests = [Discovery]\<rparr>)"
  by (simp add: rediscovery_step1_def step_defs example_env_def example_hass_def)

lemma rediscovery_step2_eq:
  "rediscovery_step2 =
     (Inr (ShowForm ''link'' [] [] []),
      (DeconzFlowHandler SOURCE_USER)
        \<lparr>bridges := Some [\<lparr>b_id = ''00212EFFFF011111'', b_host = ''10.0.0.9'', b_port = 8080\<rparr>],
         bridge_id := ''00212EFFFF011111'', host := Some ''10.0.0.9'', port := Some 8080\<rparr>,
      \<lparr>config_entries = [paired_entry SOURCE_USER], hass_data = Map.empty,
       requests = [Discovery]\<rparr>)"
  by (simp add: rediscovery_step2_def rediscovery_step1_eq outcome_defs step_defs example_env_def)

text \<open>
  C1. The code at the input where the claim fails. A record of the bridge exists. In a
  user-initiated flow the discovery finds the bridge at a new address, the user chooses
  it and the link step obtains a key. The bridge id is then known, so
  \<^verbatim>\<open>_create_entry\<close> skips the lookup and answers with a created entry; the flow never
  registered a unique id. The stored record keeps its old host, port and key, and a
  second record of the same bridge, without unique id, is added.
\<close>

theorem rediscovered_bridge_is_recorded_twice:
  "result_of rediscovery_step2 = Inr (ShowForm ''link'' [] [] []) \<and>
   bridge_id (flow_of rediscovery_step2) = ''00212EFFFF011111'' \<and>
   flow_unique_id (flow_of rediscovery_step2) = None \<and>
   result_of rediscovery_step3 =
     Inr (CreateEntry ''00212EFFFF011111''
            \<lparr>conf_host = ''10.0.0.9'', conf_port = 8080, conf_api_key = ''NEWKEY''\<rparr>) \<and>
   config_entries (hass_of rediscovery_step3) =
     [\<lparr>unique_id = Some ''00212EFFFF011111'', source = SOURCE_USER,
       title = ''00212EFFFF011111'',
       data = \<lparr>conf_host = ''1.2.3.4'', conf_port = 80, conf_api_key = ''OLDKEY''\<rparr>\<rparr>,
      \<lparr>unique_id = None, source = SOURCE_USER, title = ''00212EFFFF011111'',
       data = \<lparr>conf_host = ''10.0.0.9'', conf_port = 8080, conf_api_key = ''NEWKEY''\<rparr>\<rparr>]"
  by (simp add: rediscovery_step3_def rediscovery_step2_eq outcome_defs step_defs
      example_env_def paired_entry_def)


end
